theory Spec2Isabelle
  imports Main
begin

section \<open>Python values used by \<open>Func_Miniconda.py\<close>\<close>

text \<open>
  A Python \<open>str\<close> is modelled as a \<open>string\<close> whose characters are the code points
  below 256; \<open>str.isspace\<close> and \<open>str.lower\<close> are written out for that range. Strings
  with larger code points are outside the model.
\<close>

datatype py_error =
    ValueError
  | IndexError
  | NameError
  | OSError
  | CalledProcessError int
  | UnicodeDecodeError
  | NotImplementedError
  | ConnectionError
  | RemoteError
  | ConfigurationError

definition backslash :: char where
  "backslash = CHR 0x5C"

definition py_isspace :: "char \<Rightarrow> bool" where
  "py_isspace c =
     (let n = (of_char c :: nat)
      in (9 \<le> n \<and> n \<le> 13) \<or> (28 \<le> n \<and> n \<le> 32) \<or> n = 133 \<or> n = 160)"

definition py_lower_char :: "char \<Rightarrow> char" where
  "py_lower_char c =
     (let n = (of_char c :: nat)
      in if (65 \<le> n \<and> n \<le> 90) \<or> (192 \<le> n \<and> n \<le> 214) \<or> (216 \<le> n \<and> n \<le> 222)
         then char_of (n + 32) else c)"

definition py_lower :: "string \<Rightarrow> string" where
  "py_lower s = map py_lower_char s"

definition py_lstrip :: "string \<Rightarrow> string" where
  "py_lstrip s = dropWhile py_isspace s"

definition py_rstrip :: "string \<Rightarrow> string" where
  "py_rstrip s = rev (dropWhile py_isspace (rev s))"

definition py_strip :: "string \<Rightarrow> string" where
  "py_strip s = py_rstrip (py_lstrip s)"

text \<open>\<open>s.replace(old, new)\<close> for one-character \<open>old\<close> and \<open>new\<close>.\<close>

definition py_replace :: "char \<Rightarrow> char \<Rightarrow> string \<Rightarrow> string" where
  "py_replace old new s = map (\<lambda>c. if c = old then new else c) s"

text \<open>
  \<open>s.split(sep, maxsplit)\<close> for a one-character separator; \<open>None\<close> is Python's
  default (no limit on the number of splits).
\<close>

fun py_split :: "char \<Rightarrow> nat option \<Rightarrow> string \<Rightarrow> string list" where
  "py_split sep maxsplit [] = [[]]"
| "py_split sep maxsplit (c # cs) =
     (if c = sep \<and> maxsplit \<noteq> Some 0
      then [] # py_split sep (map_option (\<lambda>n. n - 1) maxsplit) cs
      else (case py_split sep maxsplit cs of
              r # rs \<Rightarrow> (c # r) # rs
            | [] \<Rightarrow> [[c]]))"

section \<open>Path translation\<close>

text \<open>
  \<open>windows_to_linux_path\<close> (lines 152-164). The tuple assignment
  \<open>drive, path_without_drive = path.split(':', 1)\<close> raises \<open>ValueError\<close> unless the
  list has exactly two elements.
\<close>

definition windows_to_linux_path :: "string \<Rightarrow> py_error + string" where
  "windows_to_linux_path windows_path =
     (let windows_path = py_strip windows_path;
          path = py_replace backslash CHR ''/'' windows_path
      in if CHR '':'' \<in> set path
         then (case py_split CHR '':'' (Some 1) path of
                 [drive, path_without_drive] \<Rightarrow>
                   Inr (''/mnt/'' @ py_lower drive @ path_without_drive)
               | _ \<Rightarrow> Inl ValueError)
         else Inr path)"

text \<open>
  The spec's notion of a drive marker \<open>X:\<close>: a letter immediately followed by a colon.
  \<open>has_drive_marker\<close> looks for one anywhere in the string; \<open>drive_marker_path\<close> is a
  host path that starts with one and has no other colon (a colon is not allowed in a
  Windows file name).
\<close>

definition is_drive_letter :: "char \<Rightarrow> bool" where
  "is_drive_letter c =
     (let n = (of_char c :: nat) in (65 \<le> n \<and> n \<le> 90) \<or> (97 \<le> n \<and> n \<le> 122))"

fun has_drive_marker :: "string \<Rightarrow> bool" where
  "has_drive_marker (d # c # cs) =
     ((is_drive_letter d \<and> c = CHR '':'') \<or> has_drive_marker (c # cs))"
| "has_drive_marker _ = False"

fun drive_marker_path :: "string \<Rightarrow> bool" where
  "drive_marker_path (d # c # rest) =
     (is_drive_letter d \<and> c = CHR '':'' \<and> CHR '':'' \<notin> set rest)"
| "drive_marker_path _ = False"

text \<open>
  Vocabulary for the statements about \<open>windows_to_linux_path\<close>: the input after
  stripping and separator normalisation, the text before its first colon, the text after
  that colon, and the inputs with exactly one colon.
\<close>

definition normalised :: "string \<Rightarrow> string" where
  "normalised s = py_replace backslash CHR ''/'' (py_strip s)"

definition before_colon :: "string \<Rightarrow> string" where
  "before_colon p = takeWhile (\<lambda>x. x \<noteq> CHR '':'') p"

definition after_colon :: "string \<Rightarrow> string" where
  "after_colon p = tl (dropWhile (\<lambda>x. x \<noteq> CHR '':'') p)"

definition single_colon :: "string \<Rightarrow> bool" where
  "single_colon s = (length (filter (\<lambda>c. c = CHR '':'') s) = 1)"

section \<open>The host: processes, prints and the platform library\<close>

text \<open>
  \<open>subprocess.CompletedProcess\<close>, and what launching a command can do: the process runs
  and exits with a code, or the launch itself fails (\<open>OSError\<close>, for instance when the
  \<open>wsl\<close> executable is absent).
\<close>

record completed_process =
  returncode :: int
  stdout :: string
  stderr :: string

datatype outcome = Exited completed_process | LaunchFailed

datatype command = Argv "string list" | Shell string

text \<open>
  The arguments of a \<open>print\<close> call, unformatted; \<open>Fmt\<close> is an f-string, the
  concatenation of its parts.
\<close>

datatype py_value =
    Str string
  | Num int
  | StrList "string list"
  | Exc py_error
  | Fmt "py_value list"

type_synonym job_args = "(string \<times> py_value) list"

datatype event =
    Exec command
  | Popen command
  | Print "py_value list"
  | Sleep nat
  | Connected string nat
  | RemoteRunning job_args
  | RemoteStop
  | ConnClose
  | Terminate

text \<open>
  Everything outside the module is a field of \<open>host\<close>: how a command ends given the
  events so far, whether its output decodes with the locale's codec, the platform, \<open>sys.argv\<close>, the directory of the module file, the two
  \<open>os.path\<close> functions the module calls, whether the module global \<open>rpyc\<close> is bound
  (the file has no \<open>import rpyc\<close>), and the behaviour of the RPC peer.
\<close>

record host =
  exec :: "event list \<Rightarrow> command \<Rightarrow> outcome"
  decodes :: "event list \<Rightarrow> command \<Rightarrow> bool"
  platform_system :: string
  platform_machine :: string
  sys_argv :: "string list"
  current_directory :: string
  os_path_join :: "string \<Rightarrow> string list \<Rightarrow> string"
  os_path_basename :: "string \<Rightarrow> string"
  rpyc_bound :: bool
  rpyc_connect :: "event list \<Rightarrow> py_error option"
  remote_running :: "event list \<Rightarrow> py_error option"
  remote_stop :: "event list \<Rightarrow> py_error + string"

text \<open>A statement takes the events so far and returns a value or an exception, and the events.\<close>

type_synonym 'a prog = "event list \<Rightarrow> (py_error + 'a) \<times> event list"

definition returns :: "'a \<Rightarrow> 'a prog" where
  "returns x = (\<lambda>tr. (Inr x, tr))"

definition raise :: "py_error \<Rightarrow> 'a prog" where
  "raise e = (\<lambda>tr. (Inl e, tr))"

definition and_then :: "'a prog \<Rightarrow> ('a \<Rightarrow> 'b prog) \<Rightarrow> 'b prog" where
  "and_then m f = (\<lambda>tr. case m tr of (Inl e, tr') \<Rightarrow> (Inl e, tr') | (Inr x, tr') \<Rightarrow> f x tr')"


definition emit :: "event \<Rightarrow> unit prog" where
  "emit ev = (\<lambda>tr. (Inr (), tr @ [ev]))"

definition print :: "py_value list \<Rightarrow> unit prog" where
  "print vs = emit (Print vs)"


text \<open>\<open>xs[i]\<close> for a literal index \<open>i \<ge> 0\<close>.\<close>

definition py_index :: "'a list \<Rightarrow> nat \<Rightarrow> 'a prog" where
  "py_index xs i = (if i < length xs then returns (xs ! i) else raise IndexError)"

text \<open>
  \<open>subprocess.run\<close> without \<open>check\<close>: the exit code is not inspected.
  \<open>subprocess.check_call\<close>: a non-zero exit code raises \<open>CalledProcessError\<close>.
\<close>

definition subprocess_run :: "host \<Rightarrow> command \<Rightarrow> completed_process prog" where
  "subprocess_run h cmd =
     (\<lambda>tr. case exec h tr cmd of
             Exited r \<Rightarrow> (Inr r, tr @ [Exec cmd])
           | LaunchFailed \<Rightarrow> (Inl OSError, tr @ [Exec cmd]))"

text \<open>
  \<open>subprocess.run(..., text=True)\<close> with neither \<open>encoding\<close> nor \<open>errors\<close>:
  the captured streams are decoded strictly with the locale's codec, which raises
  \<open>UnicodeDecodeError\<close> on output it cannot decode. The other captures of the module
  are left as bytes or decoded with \<open>errors='replace'\<close>, which cannot fail.
\<close>

definition subprocess_run_strict :: "host \<Rightarrow> command \<Rightarrow> completed_process prog" where
  "subprocess_run_strict h cmd =
     (\<lambda>tr. case exec h tr cmd of
             Exited r \<Rightarrow> if decodes h tr cmd then (Inr r, tr @ [Exec cmd])
                         else (Inl UnicodeDecodeError, tr @ [Exec cmd])
           | LaunchFailed \<Rightarrow> (Inl OSError, tr @ [Exec cmd]))"



text \<open>The double quote and the apostrophe, for the command lines and messages below.\<close>

definition dq :: string where
  "dq = [CHR 0x22]"

definition sq :: string where
  "sq = [CHR 0x27]"

section \<open>Runtime installation\<close>









section \<open>Environment provisioning\<close>

text \<open>
  \<open>checkEnvCondaWsl\<close> (lines 74-92). \<open>env_loop\<close> is the \<open>for line in env_lines\<close>
  loop with its early \<open>return True\<close>; \<open>False\<close> means the loop ran to its end.
\<close>

definition msg_env_missing :: string where
  "msg_env_missing = ''Env conda doesn'' @ sq @ ''t exist''"

definition conda_info_envs :: command where
  "conda_info_envs =
     Argv [''wsl'', ''--'', ''~/miniconda3/bin/python3'', ''~/miniconda3/bin/conda'', ''info'', ''--envs'']"

fun env_loop :: "(string \<Rightarrow> string) \<Rightarrow> string \<Rightarrow> string list \<Rightarrow> bool" where
  "env_loop basename name [] = False"
| "env_loop basename name (line # env_lines) =
     (let env_name = basename line
      in if env_name = name then True else env_loop basename name env_lines)"

definition checkEnvCondaWsl :: "host \<Rightarrow> string \<Rightarrow> bool prog" where
  "checkEnvCondaWsl h name =
     and_then (subprocess_run h conda_info_envs) (\<lambda>result.
     and_then
       (if returncode result = 0
        then (let output = stdout result
              in and_then (print [Str ''output : '', Str output]) (\<lambda>_.
                 let env_lines = py_split CHR 0x0A None (py_strip output)
                 in returns (env_loop (os_path_basename h) name env_lines)))
        else returns False) (\<lambda>found.
     if found
     then and_then (print [Str ''Env conda exist'']) (\<lambda>_. returns True)
     else and_then (print [Str msg_env_missing]) (\<lambda>_. returns False)))"

text \<open>
  \<open>createCondaEnv\<close> (lines 94-148). The creation command of line 104 is the one
  capture decoded strictly. \<open>pip_install\<close> is the shape shared by the eight
  f-strings of \<open>install_commands\<close>; \<open>install_loop\<close> is the \<open>for command in
  install_commands\<close> loop, which rebinds \<open>result\<close> at every turn.
\<close>

definition conda_create_argv :: "string \<Rightarrow> string list" where
  "conda_create_argv name =
     [''wsl'', ''--'', ''~/miniconda3/bin/conda'', ''create'', ''-y'', ''-n'', name,
      ''python=3.9'', ''pip'', ''numpy-base'']"

definition pip_install :: "string \<Rightarrow> string \<Rightarrow> string \<Rightarrow> string \<Rightarrow> string" where
  "pip_install path_activate name path_pip what =
     ''wsl -- bash -c '' @ dq @ ''source '' @ path_activate @ '' '' @ name @ '' && ''
       @ path_pip @ '' install '' @ what @ dq"

definition install_commands :: "string \<Rightarrow> string list" where
  "install_commands name =
     (let path_pip = ''~/miniconda3/envs/'' @ name @ ''/bin/pip'';
          path_activate = ''~/miniconda3/bin/activate''
      in map (pip_install path_activate name path_pip)
           [''torch torchvision torchaudio --extra-index-url https://download.pytorch.org/whl/cu113'',
            ''monai==0.7.0'',
            ''--no-cache-dir torch==1.11.0+cu113 torchvision==0.12.0+cu113 torchaudio==0.11.0+cu113 --extra-index-url https://download.pytorch.org/whl/cu113'',
            ''fvcore'',
            ''--no-index --no-cache-dir pytorch3d -f https://dl.fbaipublicfiles.com/pytorch3d/packaging/wheels/py39_cu113_pyt1110/download.html'',
            ''rpyc'',
            ''vtk'',
            ''scipy''])"

fun install_loop :: "host \<Rightarrow> string list \<Rightarrow> completed_process \<Rightarrow> completed_process prog" where
  "install_loop h [] result = returns result"
| "install_loop h (command # commands) result =
     and_then (print [Str ''command : '', Str command]) (\<lambda>_.
     and_then (subprocess_run h (Shell command)) (\<lambda>result.
     and_then (if returncode result = 0
               then print [Fmt [Str ''Successfully executed: '', Str command]]
               else print [Fmt [Str ''Failed to execute: '', Str command]]) (\<lambda>_.
     install_loop h commands result)))"

definition stars :: py_value where
  "stars = Str (replicate 150 CHR ''*'')"

definition createCondaEnv :: "host \<Rightarrow> string \<Rightarrow> unit prog" where
  "createCondaEnv h name =
     (let path_conda = ''~/miniconda3/bin/conda'';
          command_to_execute = conda_create_argv name
      in and_then (print [Fmt [Str ''command_to_execute : '', StrList command_to_execute]]) (\<lambda>_.
         and_then (subprocess_run_strict h (Argv command_to_execute)) (\<lambda>result.
         and_then
           (if returncode result \<noteq> 0
            then and_then (print [Fmt [Str ''Error creating the environment. Return code: '',
                                       Num (returncode result)]]) (\<lambda>_.
                 and_then (print [Str ''result.stdout : '', stars]) (\<lambda>_.
                 and_then (print [Str (stdout result)]) (\<lambda>_.
                 and_then (print [Str ''result.stderr : '', stars]) (\<lambda>_.
                 print [Str (stderr result)]))))
            else print [Str ''Environment created successfully.'']) (\<lambda>_.
         and_then (subprocess_run h (Shell (path_conda @ '' list pip''))) (\<lambda>result.
         and_then (print [Str (stdout result)]) (\<lambda>_.
         and_then (install_loop h (install_commands name) result) (\<lambda>result.
         if returncode result = 0
         then print [Str ''Environment created successfully:'', Str (stdout result)]
         else print [Str ''Failed to create environment:'', Str (stderr result)])))))))"

section \<open>The worker bridge\<close>

text \<open>
  The block of \<open>setup\<close> that provisions the environment (lines 176-177):
  \<open>if not checkEnvCondaWsl(name): createCondaEnv(name)\<close>.
\<close>

definition ensureEnvironment :: "host \<Rightarrow> string \<Rightarrow> unit prog" where
  "ensureEnvironment h name =
     and_then (checkEnvCondaWsl h name) (\<lambda>found.
     if \<not> found then createCondaEnv h name else returns ())"



text \<open>
  \<open>call\<close> (lines 204-238). \<open>rpyc.connect\<close> first looks the global \<open>rpyc\<close> up, which
  raises \<open>NameError\<close> when it is unbound; otherwise the peer accepts or the call raises.
\<close>

definition connect :: "host \<Rightarrow> string \<Rightarrow> nat \<Rightarrow> unit prog" where
  "connect h hostname port =
     (\<lambda>tr. if \<not> rpyc_bound h then (Inl NameError, tr)
           else (case rpyc_connect h tr of
                   Some e \<Rightarrow> (Inl e, tr)
                 | None \<Rightarrow> (Inr (), tr @ [Connected hostname port])))"

definition root_running :: "host \<Rightarrow> job_args \<Rightarrow> unit prog" where
  "root_running h args =
     (\<lambda>tr. case remote_running h tr of
             Some e \<Rightarrow> (Inl e, tr @ [RemoteRunning args])
           | None \<Rightarrow> (Inr (), tr @ [RemoteRunning args]))"

definition root_stop :: "host \<Rightarrow> string prog" where
  "root_stop h =
     (\<lambda>tr. case remote_stop h tr of
             Inl e \<Rightarrow> (Inl e, tr @ [RemoteStop])
           | Inr s \<Rightarrow> (Inr s, tr @ [RemoteStop]))"

definition server_command :: "host \<Rightarrow> string \<Rightarrow> string \<Rightarrow> string" where
  "server_command h default_install_path name =
     (let python_executable = os_path_join h default_install_path [''envs'', name, ''python''];
          path_server = os_path_join h (current_directory h) [''server.py'']
      in python_executable @ '' '' @ path_server)"

definition activate_command :: "host \<Rightarrow> string \<Rightarrow> string \<Rightarrow> string" where
  "activate_command h default_install_path name =
     (let path_activate = os_path_join h default_install_path [''Scripts'', ''activate'']
      in ''conda '' @ path_activate @ '' '' @ name)"

definition call :: "host \<Rightarrow> string \<Rightarrow> job_args \<Rightarrow> string \<Rightarrow> unit prog" where
  "call h default_install_path args name =
     (let activate_command = activate_command h default_install_path name
      in and_then (subprocess_run h (Shell activate_command)) (\<lambda>_.
         let command = server_command h default_install_path name
         in and_then (emit (Popen (Shell command))) (\<lambda>server_process.
            and_then (emit (Sleep 2)) (\<lambda>_.
            and_then (connect h ''localhost'' 18817) (\<lambda>conn.
            and_then (emit (Sleep 2)) (\<lambda>_.
            and_then (root_running h args) (\<lambda>_.
            and_then (root_stop h) (\<lambda>result.
            and_then (if result = ''DISCONNECTING'' then emit ConnClose else returns ()) (\<lambda>_.
            print [Str ''on a ferme le server''])))))))))"

section \<open>Reading a run\<close>


fun connection_open_from :: "bool \<Rightarrow> event list \<Rightarrow> bool" where
  "connection_open_from b [] = b"
| "connection_open_from b (Connected _ _ # tr) = connection_open_from True tr"
| "connection_open_from b (ConnClose # tr) = connection_open_from False tr"
| "connection_open_from b (_ # tr) = connection_open_from b tr"

definition connection_open :: "event list \<Rightarrow> bool" where
  "connection_open tr = connection_open_from False tr"

definition worker_started :: "event list \<Rightarrow> command \<Rightarrow> bool" where
  "worker_started tr c = (Popen c \<in> set tr)"

definition worker_terminated :: "event list \<Rightarrow> bool" where
  "worker_terminated tr = (Terminate \<in> set tr)"

definition always_exits :: "host \<Rightarrow> bool" where
  "always_exits h = (\<forall>tr cmd. exec h tr cmd \<noteq> LaunchFailed)"

definition always_decodes :: "host \<Rightarrow> bool" where
  "always_decodes h = (\<forall>tr cmd. decodes h tr cmd)"

text \<open>
  \<open>runs_on m E\<close>: from any events, \<open>m\<close> only appends events, and an exception it
  ends with satisfies \<open>E\<close>.
\<close>

definition runs_on :: "'a prog \<Rightarrow> (py_error \<Rightarrow> bool) \<Rightarrow> bool" where
  "runs_on m E = (\<forall>tr. \<exists>r ext. m tr = (r, tr @ ext) \<and> (\<forall>e. r = Inl e \<longrightarrow> E e))"



section \<open>Sample hosts\<close>

text \<open>
  Concrete hosts for the closed statements. \<open>join_backslash\<close> joins relative components
  the way \<open>ntpath.join\<close> does, \<open>basename_after_slash\<close> is the text after the last
  \<open>/\<close>, and \<open>sample_host\<close> leaves only the fate of the commands open.
\<close>

definition join_backslash :: "string \<Rightarrow> string list \<Rightarrow> string" where
  "join_backslash a ps = foldl (\<lambda>x y. x @ [backslash] @ y) a ps"

definition basename_after_slash :: "string \<Rightarrow> string" where
  "basename_after_slash p = rev (takeWhile (\<lambda>c. c \<noteq> CHR ''/'') (rev p))"

definition sample_host :: "(event list \<Rightarrow> command \<Rightarrow> outcome) \<Rightarrow> host" where
  "sample_host e =
     \<lparr>exec = e,
      decodes = (\<lambda>tr cmd. True),
      platform_system = ''Windows'',
      platform_machine = ''AMD64'',
      sys_argv = [''Func_Miniconda.py'', ''setup'', ''~/miniconda3'', ''scan.vtk'', ''models'',
                  ''Occlusal'', ''UR1'', ''true'', ''out''],
      current_directory = ''C:'' @ [backslash] @ ''ALI_IOS'',
      os_path_join = join_backslash,
      os_path_basename = basename_after_slash,
      rpyc_bound = True,
      rpyc_connect = (\<lambda>tr. Some ConnectionError),
      remote_running = (\<lambda>tr. None),
      remote_stop = (\<lambda>tr. Inr ''DISCONNECTING'')\<rparr>"

definition exits :: "int \<Rightarrow> string \<Rightarrow> string \<Rightarrow> outcome" where
  "exits code out err = Exited \<lparr>returncode = code, stdout = out, stderr = err\<rparr>"

text \<open>Every command exits with code 1: nothing can be installed, created or listed.\<close>

definition failing_host :: host where
  "failing_host = sample_host (\<lambda>tr cmd. exits 1 [] ''failed'')"


text \<open>Every command exits with code 0, except the last install command (\<open>scipy\<close>).\<close>

definition scipy_failing_host :: host where
  "scipy_failing_host =
     sample_host (\<lambda>tr cmd.
       if cmd = Shell (last (install_commands ''aliIOSCondaCli''))
       then exits 1 [] ''no scipy'' else exits 0 [] [])"



section \<open>Facts about the string operations\<close>

lemma py_split_zero: "py_split c (Some 0) s = [s]"
  by (induction s) auto

lemma py_split_once:
  "c \<in> set s \<Longrightarrow>
   py_split c (Some (Suc 0)) s = [takeWhile (\<lambda>x. x \<noteq> c) s, tl (dropWhile (\<lambda>x. x \<noteq> c) s)]"
  by (induction s) (auto simp: py_split_zero)

lemma in_set_dropWhile_keep: "\<not> P x \<Longrightarrow> x \<in> set (dropWhile P xs) \<longleftrightarrow> x \<in> set xs"
  by (induction xs) auto

lemma colon_not_space: "\<not> py_isspace CHR '':''"
  by (simp add: py_isspace_def)

lemma slash_not_space: "\<not> py_isspace CHR ''/''"
  by (simp add: py_isspace_def)

lemma colon_in_strip: "CHR '':'' \<in> set (py_strip s) \<longleftrightarrow> CHR '':'' \<in> set s"
  by (simp add: py_strip_def py_rstrip_def py_lstrip_def in_set_dropWhile_keep colon_not_space)

lemma colon_in_replace:
  "CHR '':'' \<in> set (py_replace backslash CHR ''/'' s) \<longleftrightarrow> CHR '':'' \<in> set s"
  by (auto simp: py_replace_def backslash_def)

lemma colon_in_normalised: "CHR '':'' \<in> set (normalised s) \<longleftrightarrow> CHR '':'' \<in> set s"
  by (simp add: normalised_def colon_in_replace colon_in_strip)

lemma windows_to_linux_path_eq:
  "windows_to_linux_path s =
     Inr (if CHR '':'' \<in> set (normalised s)
          then ''/mnt/'' @ py_lower (before_colon (normalised s)) @ after_colon (normalised s)
          else normalised s)"
  by (simp add: windows_to_linux_path_def Let_def py_split_once normalised_def
        before_colon_def after_colon_def)

lemma strip_fix:
  assumes ne: "xs \<noteq> []" and h: "\<not> py_isspace (hd xs)" and l: "\<not> py_isspace (last xs)"
  shows "py_strip xs = xs"
proof -
  from h have 1: "dropWhile py_isspace xs = xs"
    by (simp add: dropWhile_eq_self_iff)
  from ne l have "\<not> py_isspace (hd (rev xs))"
    by (simp add: hd_rev)
  then have 2: "dropWhile py_isspace (rev xs) = rev xs"
    by (simp add: dropWhile_eq_self_iff)
  show ?thesis
    by (simp add: py_strip_def py_rstrip_def py_lstrip_def 1 2)
qed

lemma rstrip_last: "py_rstrip s \<noteq> [] \<Longrightarrow> \<not> py_isspace (last (py_rstrip s))"
proof -
  assume "py_rstrip s \<noteq> []"
  then have ne: "dropWhile py_isspace (rev s) \<noteq> []"
    by (simp add: py_rstrip_def)
  then have "\<not> py_isspace (hd (dropWhile py_isspace (rev s)))"
    by (rule hd_dropWhile)
  with ne show ?thesis
    by (simp add: py_rstrip_def last_rev)
qed

lemma strip_around:
  assumes "\<not> py_isspace a" "\<not> py_isspace b"
  shows "py_strip (pre @ a # b # post) = py_lstrip pre @ a # b # py_rstrip post"
proof -
  have 1: "py_lstrip (pre @ a # b # post) = py_lstrip pre @ a # b # post"
    using assms by (simp add: py_lstrip_def dropWhile_append3)
  have 2: "rev (py_lstrip pre @ a # b # post) = rev post @ b # (a # rev (py_lstrip pre))"
    by simp
  have 3: "dropWhile py_isspace (rev post @ b # (a # rev (py_lstrip pre)))
             = dropWhile py_isspace (rev post) @ b # (a # rev (py_lstrip pre))"
    using assms(2) by (rule dropWhile_append3)
  show ?thesis
    unfolding py_strip_def 1 by (simp only: py_rstrip_def 2 3) simp
qed

lemma not_in_lstrip: "x \<notin> set xs \<Longrightarrow> x \<notin> set (py_lstrip xs)"
  by (auto simp: py_lstrip_def dest: set_dropWhileD)

lemma not_in_rstrip: "x \<notin> set xs \<Longrightarrow> x \<notin> set (py_rstrip xs)"
  by (auto simp: py_rstrip_def dest: set_dropWhileD)

lemma lower_char_fixed_target:
  assumes a: "py_lower_char c = t" and t: "(of_char t :: nat) < 97"
  shows "c = t"
proof (rule ccontr)
  assume n: "c \<noteq> t"
  with a have up: "py_lower_char c = char_of (of_char c + 32 :: nat)"
    and r: "65 \<le> (of_char c :: nat)" "(of_char c :: nat) \<le> 222"
    by (auto simp: py_lower_char_def Let_def split: if_splits)
  from a up have "(of_char (char_of (of_char c + 32 :: nat)) :: nat) = of_char t"
    by simp
  with r have "(of_char c :: nat) + 32 = of_char t"
    by (simp only: of_char_of) simp
  with r t show False
    by simp
qed

lemma letter_facts:
  "is_drive_letter d \<Longrightarrow> d \<noteq> CHR '':'' \<and> d \<noteq> backslash \<and> \<not> py_isspace d"
  by (auto simp: is_drive_letter_def py_isspace_def backslash_def Let_def)

lemma lower_letter_not_space: "is_drive_letter d \<Longrightarrow> \<not> py_isspace (py_lower_char d)"
  by (auto simp: is_drive_letter_def py_isspace_def py_lower_char_def Let_def)

lemma lower_not_colon: "py_lower_char c = CHR '':'' \<Longrightarrow> c = CHR '':''"
  by (rule lower_char_fixed_target) simp_all

lemma lower_not_backslash: "py_lower_char c = backslash \<Longrightarrow> c = backslash"
proof -
  assume a: "py_lower_char c = backslash"
  have "(of_char backslash :: nat) < 97" by (simp add: backslash_def)
  with a show ?thesis by (rule lower_char_fixed_target)
qed

lemma replace_absent: "old \<notin> set t \<Longrightarrow> py_replace old new t = t"
  unfolding py_replace_def by (induction t) auto

lemma has_drive_marker_decomp:
  "has_drive_marker s \<Longrightarrow> \<exists>pre d post. s = pre @ d # CHR '':'' # post \<and> is_drive_letter d"
proof (induction s rule: has_drive_marker.induct)
  case (1 d c cs)
  show ?case
  proof (cases "is_drive_letter d \<and> c = CHR '':''")
    case True
    then have "d # c # cs = [] @ d # CHR '':'' # cs \<and> is_drive_letter d" by simp
    then show ?thesis by blast
  next
    case False
    with 1 obtain pre d' post where "c # cs = pre @ d' # CHR '':'' # post" "is_drive_letter d'"
      by auto
    then have "d # c # cs = (d # pre) @ d' # CHR '':'' # post \<and> is_drive_letter d'" by simp
    then show ?thesis by blast
  qed
qed simp_all

lemma single_colon_parts:
  assumes "single_colon (pre @ d # CHR '':'' # post)"
  shows "CHR '':'' \<notin> set pre \<and> d \<noteq> CHR '':'' \<and> CHR '':'' \<notin> set post"
proof -
  have "length (filter (\<lambda>c. c = CHR '':'') pre) = 0 \<and> d \<noteq> CHR '':''
        \<and> length (filter (\<lambda>c. c = CHR '':'') post) = 0"
    using assms by (auto simp: single_colon_def split: if_splits)
  then show ?thesis
    by (auto simp: filter_empty_conv)
qed

lemma normalised_shape:
  assumes m: "has_drive_marker s" and c: "single_colon s"
  shows "\<exists>pre d post. is_drive_letter d \<and> CHR '':'' \<notin> set pre \<and> CHR '':'' \<notin> set post
           \<and> backslash \<notin> set pre \<and> backslash \<notin> set post
           \<and> (post \<noteq> [] \<longrightarrow> \<not> py_isspace (last post))
           \<and> normalised s = pre @ d # CHR '':'' # post"
proof -
  from m obtain pre d post where s: "s = pre @ d # CHR '':'' # post" and d: "is_drive_letter d"
    using has_drive_marker_decomp by blast
  from c s have nc: "CHR '':'' \<notin> set pre" "CHR '':'' \<notin> set post"
    using single_colon_parts by blast+
  let ?f = "py_replace backslash CHR ''/''"
  have st: "py_strip s = py_lstrip pre @ d # CHR '':'' # py_rstrip post"
    unfolding s using d by (simp add: strip_around letter_facts colon_not_space)
  have n: "normalised s = ?f (py_lstrip pre) @ d # CHR '':'' # ?f (py_rstrip post)"
  proof -
    have "d \<noteq> backslash" "CHR '':'' \<noteq> backslash"
      using d by (simp_all add: letter_facts) (simp add: backslash_def)
    then show ?thesis
      by (simp add: normalised_def st py_replace_def)
  qed
  have l: "?f (py_rstrip post) \<noteq> [] \<longrightarrow> \<not> py_isspace (last (?f (py_rstrip post)))"
    using rstrip_last [of post] by (auto simp: py_replace_def last_map slash_not_space)
  have "CHR '':'' \<notin> set (?f (py_lstrip pre))" "CHR '':'' \<notin> set (?f (py_rstrip post))"
       "backslash \<notin> set (?f (py_lstrip pre))" "backslash \<notin> set (?f (py_rstrip post))"
    using nc not_in_lstrip [of "CHR '':''" pre] not_in_rstrip [of "CHR '':''" post]
    by (auto simp: py_replace_def backslash_def)
  with d n l show ?thesis by blast
qed

lemma split_at_colon:
  assumes "CHR '':'' \<notin> set pre"
  shows "before_colon (pre @ CHR '':'' # post) = pre" "after_colon (pre @ CHR '':'' # post) = post"
  using assms by (induction pre) (auto simp: before_colon_def after_colon_def)

lemma translated_fixpoint:
  assumes ne: "t \<noteq> []" and h: "\<not> py_isspace (hd t)" and l: "\<not> py_isspace (last t)"
    and c: "CHR '':'' \<notin> set t" and b: "backslash \<notin> set t"
  shows "windows_to_linux_path t = Inr t \<and> normalised t = t"
proof -
  have s: "py_strip t = t" using ne h l by (rule strip_fix)
  have "py_replace backslash CHR ''/'' t = t"
    using b by (rule replace_absent)
  then have n: "normalised t = t" by (simp add: normalised_def s)
  with c show ?thesis by (simp add: windows_to_linux_path_eq)
qed

section \<open>Path translation: the claims\<close>

text \<open>
  C8. For every host path that contains a drive marker and no other colon (a valid
  Windows path), translating the translation gives the translation again: the output
  has no colon left and no backslash, so the second pass changes nothing, separator
  normalisation included.
\<close>

theorem windows_to_linux_path_idempotent:
  assumes m: "has_drive_marker s" and c: "single_colon s"
  shows "\<exists>t. windows_to_linux_path s = Inr t \<and> windows_to_linux_path t = Inr t
             \<and> CHR '':'' \<notin> set t \<and> py_replace backslash CHR ''/'' t = t"
proof -
  from normalised_shape [OF m c] obtain pre d post where d: "is_drive_letter d"
    and nc: "CHR '':'' \<notin> set pre" "CHR '':'' \<notin> set post"
    and nb: "backslash \<notin> set pre" "backslash \<notin> set post"
    and l: "post \<noteq> [] \<longrightarrow> \<not> py_isspace (last post)"
    and n: "normalised s = pre @ d # CHR '':'' # post"
    by blast
  let ?t = "''/mnt/'' @ py_lower (pre @ [d]) @ post"
  have dc: "CHR '':'' \<notin> set (pre @ [d])"
    using nc letter_facts [OF d] by auto
  have n': "normalised s = (pre @ [d]) @ CHR '':'' # post"
    by (simp add: n)
  have 1: "windows_to_linux_path s = Inr ?t"
    unfolding windows_to_linux_path_eq n' split_at_colon [OF dc] by simp
  have lc: "CHR '':'' \<notin> set (py_lower (pre @ [d]))"
    using dc lower_not_colon unfolding py_lower_def by (metis (no_types, lifting) image_iff set_map)
  have lb: "backslash \<notin> set (py_lower (pre @ [d]))"
  proof -
    have "backslash \<notin> set (pre @ [d])" using nb letter_facts [OF d] by auto
    then show ?thesis
      using lower_not_backslash unfolding py_lower_def by (metis (no_types, lifting) image_iff set_map)
  qed
  have tc: "CHR '':'' \<notin> set ?t" using lc nc by simp
  have tb: "backslash \<notin> set ?t" using lb nb by (simp add: backslash_def)
  have th: "\<not> py_isspace (hd ?t)" by (simp add: slash_not_space)
  have tl: "\<not> py_isspace (last ?t)"
  proof (cases "post = []")
    case True
    then show ?thesis using d by (simp add: py_lower_def lower_letter_not_space)
  next
    case False
    then show ?thesis using l by simp
  qed
  have "windows_to_linux_path ?t = Inr ?t \<and> normalised ?t = ?t"
    using th tl tc tb by (intro translated_fixpoint) simp_all
  moreover have "py_replace backslash CHR ''/'' ?t = ?t"
    using tb by (rule replace_absent)
  ultimately show ?thesis using 1 tc by blast
qed


theorem windows_to_linux_path_idempotent_witness:
  "has_drive_marker [CHR ''C'', CHR '':'', CHR 0x5C, CHR ''U'', CHR ''s'', CHR 0x5C, CHR ''m'', CHR ''e'']
   \<and> single_colon [CHR ''C'', CHR '':'', CHR 0x5C, CHR ''U'', CHR ''s'', CHR 0x5C, CHR ''m'', CHR ''e'']
   \<and> windows_to_linux_path
         [CHR ''C'', CHR '':'', CHR 0x5C, CHR ''U'', CHR ''s'', CHR 0x5C, CHR ''m'', CHR ''e'']
       = Inr ''/mnt/c/Us/me''
   \<and> windows_to_linux_path ''/mnt/c/Us/me'' = Inr ''/mnt/c/Us/me''"
proof -
  let ?s = "[CHR ''C'', CHR '':'', CHR 0x5C, CHR ''U'', CHR ''s'', CHR 0x5C, CHR ''m'', CHR ''e'']"
  have m: "has_drive_marker ?s"
    by (simp add: is_drive_letter_def)
  have c: "single_colon ?s"
    by (simp add: single_colon_def)
  have e: "windows_to_linux_path ?s = Inr ''/mnt/c/Us/me''"
    by code_simp
  from windows_to_linux_path_idempotent [OF m c] obtain t
    where "windows_to_linux_path ?s = Inr t" and f: "windows_to_linux_path t = Inr t"
    by blast
  with e have "t = ''/mnt/c/Us/me''"
    by simp
  with f m c e show ?thesis
    by simp
qed

text \<open>
  The bound on the colons matters: a path with a second colon (an alternate data stream,
  say) keeps that colon in its translation, and a second pass rewrites it again.
\<close>

lemma second_colon_not_idempotent:
  "windows_to_linux_path [CHR ''C'', CHR '':'', CHR 0x5C, CHR ''f'', CHR '':'', CHR ''s'']
     = Inr ''/mnt/c/f:s''
   \<and> windows_to_linux_path ''/mnt/c/f:s'' = Inr ''/mnt//mnt/c/fs''"
  by code_simp

text \<open>
  C9. Any colon in the input triggers the rewrite: the stripped, normalised path is cut
  at its first colon, the whole text before it is lower-cased and prefixed with
  \<open>/mnt/\<close>, and the text after it follows unchanged, whether or not the colon belongs
  to a drive marker.
\<close>

theorem windows_to_linux_path_any_colon:
  assumes "CHR '':'' \<in> set s"
  shows "windows_to_linux_path s
           = Inr (''/mnt/'' @ py_lower (before_colon (normalised s)) @ after_colon (normalised s))
         \<and> normalised s = before_colon (normalised s) @ CHR '':'' # after_colon (normalised s)
         \<and> CHR '':'' \<notin> set (before_colon (normalised s))"
proof -
  from assms have c: "CHR '':'' \<in> set (normalised s)"
    by (simp add: colon_in_normalised)
  then have "dropWhile (\<lambda>x. x \<noteq> CHR '':'') (normalised s) \<noteq> []"
    by simp
  moreover from this have "hd (dropWhile (\<lambda>x. x \<noteq> CHR '':'') (normalised s)) = CHR '':''"
    using hd_dropWhile [of "\<lambda>x. x \<noteq> CHR '':''" "normalised s"] by simp
  ultimately have "dropWhile (\<lambda>x. x \<noteq> CHR '':'') (normalised s)
                     = CHR '':'' # after_colon (normalised s)"
    unfolding after_colon_def by (metis list.collapse)
  then have "normalised s = before_colon (normalised s) @ CHR '':'' # after_colon (normalised s)"
    unfolding before_colon_def
    by (metis takeWhile_dropWhile_id)
  moreover have "CHR '':'' \<notin> set (before_colon (normalised s))"
    by (auto simp: before_colon_def dest: set_takeWhileD)
  ultimately show ?thesis
    using c by (simp add: windows_to_linux_path_eq)
qed

theorem windows_to_linux_path_any_colon_witness:
  "CHR '':'' \<in> set ''HTTP://Host:80/x''
   \<and> windows_to_linux_path ''HTTP://Host:80/x'' = Inr ''/mnt/http//Host:80/x''"
proof -
  have h: "CHR '':'' \<in> set ''HTTP://Host:80/x''"
    by simp
  have e: "''/mnt/'' @ py_lower (before_colon (normalised ''HTTP://Host:80/x''))
             @ after_colon (normalised ''HTTP://Host:80/x'') = ''/mnt/http//Host:80/x''"
    by code_simp
  from windows_to_linux_path_any_colon [OF h] e h show ?thesis
    by simp
qed

text \<open>
  C7, as stated, fails: \<open>12:30\<close> has no drive marker (no letter before its colon),
  yet it is not returned with its separators normalised only.
\<close>

theorem windows_to_linux_path_no_marker_counterexample:
  "\<not> has_drive_marker ''12:30''
   \<and> windows_to_linux_path ''12:30'' = Inr ''/mnt/1230''
   \<and> windows_to_linux_path ''12:30'' \<noteq> Inr (normalised ''12:30'')"
proof -
  have "\<not> has_drive_marker ''12:30''"
    by (simp add: is_drive_letter_def)
  moreover have "windows_to_linux_path ''12:30'' = Inr ''/mnt/1230''"
    by code_simp
  moreover have "normalised ''12:30'' = ''12:30''"
    by code_simp
  ultimately show ?thesis
    by simp
qed

text \<open>
  C7, amended. For every input string the function returns a path, never an error. The
  input is stripped of surrounding whitespace and every backslash becomes \<open>/\<close>; if a
  colon occurs, the result is \<open>/mnt/\<close>, the lower-cased text before the first colon and
  the text after it; for a path that starts with a drive marker and has no other colon
  that is \<open>/mnt/\<close>, the lower-cased drive letter and the normalised remainder; a string
  without any colon is returned stripped and normalised only.
\<close>

theorem windows_to_linux_path_total:
  "windows_to_linux_path s
     = Inr (if CHR '':'' \<in> set s
            then ''/mnt/'' @ py_lower (before_colon (normalised s)) @ after_colon (normalised s)
            else normalised s)
   \<and> (drive_marker_path (py_strip s) \<longrightarrow>
        windows_to_linux_path s
          = Inr (''/mnt/'' @ [py_lower_char (hd (py_strip s))]
                   @ py_replace backslash CHR ''/'' (drop 2 (py_strip s))))"
proof
  show "windows_to_linux_path s
     = Inr (if CHR '':'' \<in> set s
            then ''/mnt/'' @ py_lower (before_colon (normalised s)) @ after_colon (normalised s)
            else normalised s)"
    by (simp add: windows_to_linux_path_eq colon_in_normalised)
next
  show "drive_marker_path (py_strip s) \<longrightarrow>
        windows_to_linux_path s
          = Inr (''/mnt/'' @ [py_lower_char (hd (py_strip s))]
                   @ py_replace backslash CHR ''/'' (drop 2 (py_strip s)))"
  proof
    assume "drive_marker_path (py_strip s)"
    then obtain d rest where st: "py_strip s = d # CHR '':'' # rest" and d: "is_drive_letter d"
      by (cases "py_strip s" rule: drive_marker_path.cases) auto
    from d have "d \<noteq> backslash" "d \<noteq> CHR '':''" "CHR '':'' \<noteq> backslash"
      by (simp_all add: letter_facts) (simp add: backslash_def)
    then have n: "normalised s = [d] @ CHR '':'' # py_replace backslash CHR ''/'' rest"
      by (simp add: normalised_def st py_replace_def)
    have dc: "CHR '':'' \<notin> set [d]"
      using \<open>d \<noteq> CHR '':''\<close> by simp
    show "windows_to_linux_path s
          = Inr (''/mnt/'' @ [py_lower_char (hd (py_strip s))]
                   @ py_replace backslash CHR ''/'' (drop 2 (py_strip s)))"
      unfolding windows_to_linux_path_eq n split_at_colon [OF dc]
      by (simp add: st py_lower_def)
  qed
qed

theorem windows_to_linux_path_total_witness:
  "drive_marker_path (py_strip (''  C:'' @ [CHR 0x5C] @ ''Users'' @ [CHR 0x5C] @ ''Me'' @ [CHR 0x0A]))
   \<and> windows_to_linux_path (''  C:'' @ [CHR 0x5C] @ ''Users'' @ [CHR 0x5C] @ ''Me'' @ [CHR 0x0A])
       = Inr ''/mnt/c/Users/Me''"
proof -
  let ?s = "''  C:'' @ [CHR 0x5C] @ ''Users'' @ [CHR 0x5C] @ ''Me'' @ [CHR 0x0A]"
  have h: "drive_marker_path (py_strip ?s)"
    by code_simp
  have e: "''/mnt/'' @ [py_lower_char (hd (py_strip ?s))]
             @ py_replace backslash CHR ''/'' (drop 2 (py_strip ?s)) = ''/mnt/c/Users/Me''"
    by code_simp
  from windows_to_linux_path_total [of ?s] h
  have "windows_to_linux_path ?s
          = Inr (''/mnt/'' @ [py_lower_char (hd (py_strip ?s))]
                   @ py_replace backslash CHR ''/'' (drop 2 (py_strip ?s)))"
    by blast
  with e h show ?thesis
    by simp
qed

section \<open>Facts about the statements\<close>

lemma runs_on_returns: "runs_on (returns x) E"
  by (simp add: runs_on_def returns_def)


lemma runs_on_emit: "runs_on (emit ev) E"
  by (simp add: runs_on_def emit_def)

lemma runs_on_print: "runs_on (print vs) E"
  by (simp add: print_def runs_on_emit)

lemma runs_on_weaken: "runs_on m E \<Longrightarrow> (\<And>e. E e \<Longrightarrow> E' e) \<Longrightarrow> runs_on m E'"
  unfolding runs_on_def by blast

lemma runs_on_and_then:
  assumes m: "runs_on m E" and f: "\<And>x. runs_on (f x) E"
  shows "runs_on (and_then m f) E"
  unfolding runs_on_def
proof
  fix tr
  from m obtain r ext where 1: "m tr = (r, tr @ ext)" and e1: "\<forall>e. r = Inl e \<longrightarrow> E e"
    unfolding runs_on_def by blast
  show "\<exists>r ext. and_then m f tr = (r, tr @ ext) \<and> (\<forall>e. r = Inl e \<longrightarrow> E e)"
  proof (cases r)
    case (Inl e)
    with 1 e1 show ?thesis
      by (auto simp: and_then_def)
  next
    case (Inr x)
    from f [of x] obtain r' ext' where 2: "f x (tr @ ext) = (r', (tr @ ext) @ ext')"
      and e2: "\<forall>e. r' = Inl e \<longrightarrow> E e"
      unfolding runs_on_def by blast
    from 1 Inr 2 have "and_then m f tr = (r', tr @ (ext @ ext'))"
      by (simp add: and_then_def)
    with e2 show ?thesis by blast
  qed
qed


lemma runs_on_if: "runs_on a E \<Longrightarrow> runs_on b E \<Longrightarrow> runs_on (if c then a else b) E"
  by simp


lemma runs_on_subprocess_run_exits: "always_exits h \<Longrightarrow> runs_on (subprocess_run h c) E"
  by (auto simp: runs_on_def subprocess_run_def always_exits_def split: outcome.splits)


lemma runs_on_subprocess_run_strict_exits:
  "always_exits h \<Longrightarrow> always_decodes h \<Longrightarrow> runs_on (subprocess_run_strict h c) E"
  by (auto simp: runs_on_def subprocess_run_strict_def always_exits_def always_decodes_def
      split: outcome.splits)




lemma runs_on_py_index_in: "i < length xs \<Longrightarrow> runs_on (py_index xs i) E"
  by (simp add: py_index_def runs_on_returns)









lemma runs_on_checkEnvCondaWsl_exits: "always_exits h \<Longrightarrow> runs_on (checkEnvCondaWsl h name) E"
  unfolding checkEnvCondaWsl_def Let_def
  by (intro runs_on_and_then runs_on_subprocess_run_exits runs_on_if runs_on_print runs_on_returns)


lemma runs_on_install_loop_exits: "always_exits h \<Longrightarrow> runs_on (install_loop h cs r) E"
proof (induction cs arbitrary: r)
  case Nil
  show ?case by (simp add: runs_on_returns)
next
  case (Cons c cs)
  show ?case
    unfolding install_loop.simps
    by (intro runs_on_and_then runs_on_subprocess_run_exits runs_on_if runs_on_print Cons)
qed


lemma runs_on_createCondaEnv_exits:
  "always_exits h \<Longrightarrow> always_decodes h \<Longrightarrow> runs_on (createCondaEnv h name) E"
  unfolding createCondaEnv_def Let_def
  by (intro runs_on_and_then runs_on_subprocess_run_exits runs_on_subprocess_run_strict_exits
      runs_on_if runs_on_print runs_on_install_loop_exits)


lemma runs_on_ensureEnvironment_exits:
  "always_exits h \<Longrightarrow> always_decodes h \<Longrightarrow> runs_on (ensureEnvironment h name) E"
  unfolding ensureEnvironment_def
  by (intro runs_on_and_then runs_on_checkEnvCondaWsl_exits runs_on_if runs_on_createCondaEnv_exits
      runs_on_returns)







section \<open>Environment provisioning: the claims\<close>











section \<open>Runtime installation: the claims\<close>





lemma print_run: "print vs tr = (Inr (), tr @ [Print vs])"
  by (simp add: print_def emit_def)











lemma call_connect_fails:
  assumes x: "exec h tr (Shell (activate_command h default_install_path name)) = Exited r"
    and c: "\<not> rpyc_bound h
            \<or> rpyc_connect h (tr @ [Exec (Shell (activate_command h default_install_path name)),
                                     Popen (Shell (server_command h default_install_path name)),
                                     Sleep 2]) = Some e"
  shows "call h default_install_path args name tr =
           (Inl (if rpyc_bound h then e else NameError),
            tr @ [Exec (Shell (activate_command h default_install_path name)),
                  Popen (Shell (server_command h default_install_path name)),
                  Sleep 2])"
  using c
  by (auto simp: call_def Let_def and_then_def subprocess_run_def x emit_def connect_def)

lemma connection_open_from_quiet:
  "connection_open_from b (tr @ [Exec a, Popen s, Sleep n]) = connection_open_from b tr"
  by (induction b tr rule: connection_open_from.induct) simp_all







lemma createCondaEnv_undecodable:
  assumes "exec h (tr @ [Print [Fmt [Str ''command_to_execute : '', StrList (conda_create_argv name)]]])
             (Argv (conda_create_argv name)) = Exited r"
    and "\<not> decodes h (tr @ [Print [Fmt [Str ''command_to_execute : '', StrList (conda_create_argv name)]]])
             (Argv (conda_create_argv name))"
  shows "createCondaEnv h name tr =
           (Inl UnicodeDecodeError,
            tr @ [Print [Fmt [Str ''command_to_execute : '', StrList (conda_create_argv name)]],
                  Exec (Argv (conda_create_argv name))])"
  using assms
  by (simp add: createCondaEnv_def Let_def and_then_def print_run subprocess_run_strict_def)







section \<open>The worker bridge: the claims\<close>




text \<open>
  C3, as stated, fails. With the worker unreachable, \<open>call\<close> ends with
  \<open>ConnectionError\<close> and the worker process it started is not terminated.
\<close>

theorem call_unreachable_counterexample:
  "fst (call failing_host ''~/miniconda3'' [] ''aliIOSCondaCli'' []) = Inl ConnectionError
   \<and> worker_started (snd (call failing_host ''~/miniconda3'' [] ''aliIOSCondaCli'' []))
         (Shell (server_command failing_host ''~/miniconda3'' ''aliIOSCondaCli''))
   \<and> \<not> worker_terminated (snd (call failing_host ''~/miniconda3'' [] ''aliIOSCondaCli'' []))"
  by code_simp

text \<open>
  C3, amended. When the client connection cannot be opened (the global \<open>rpyc\<close> is
  unbound, or the connection attempt raises), \<open>call\<close> ends with that exception right
  after the activation command, the start of the worker and the two-second wait: no
  client connection has been opened, and the worker process is started and left running,
  \<open>call\<close> does not terminate it.
\<close>

theorem call_connection_failure:
  assumes "exec h tr (Shell (activate_command h default_install_path name)) = Exited r"
    and "\<not> rpyc_bound h
         \<or> rpyc_connect h (tr @ [Exec (Shell (activate_command h default_install_path name)),
                                  Popen (Shell (server_command h default_install_path name)),
                                  Sleep 2]) = Some e"
  shows "call h default_install_path args name tr =
           (Inl (if rpyc_bound h then e else NameError),
            tr @ [Exec (Shell (activate_command h default_install_path name)),
                  Popen (Shell (server_command h default_install_path name)),
                  Sleep 2])
         \<and> connection_open (snd (call h default_install_path args name tr)) = connection_open tr
         \<and> worker_started (snd (call h default_install_path args name tr))
              (Shell (server_command h default_install_path name))
         \<and> worker_terminated (snd (call h default_install_path args name tr)) = worker_terminated tr"
  by (simp add: call_connect_fails [OF assms] connection_open_def connection_open_from_quiet
      worker_started_def worker_terminated_def)

theorem call_connection_failure_witness:
  "call failing_host ''~/miniconda3'' [] ''aliIOSCondaCli'' [] =
     (Inl ConnectionError,
      [Exec (Shell (activate_command failing_host ''~/miniconda3'' ''aliIOSCondaCli'')),
       Popen (Shell (server_command failing_host ''~/miniconda3'' ''aliIOSCondaCli'')),
       Sleep 2])
   \<and> \<not> connection_open (snd (call failing_host ''~/miniconda3'' [] ''aliIOSCondaCli'' []))
   \<and> \<not> worker_terminated (snd (call failing_host ''~/miniconda3'' [] ''aliIOSCondaCli'' []))"
proof -
  let ?r = "\<lparr>returncode = 1, stdout = [], stderr = ''failed''\<rparr>"
  have x: "exec failing_host [] c = Exited ?r" for c
    by (simp add: failing_host_def sample_host_def exits_def)
  have b: "rpyc_bound failing_host" and c: "rpyc_connect failing_host t = Some ConnectionError" for t
    by (simp_all add: failing_host_def sample_host_def)
  from call_connection_failure [of failing_host "[]" "''~/miniconda3''" "''aliIOSCondaCli''" ?r
         ConnectionError "[]"] x b c
  show ?thesis
    by (simp add: connection_open_def worker_terminated_def)
qed

section \<open>Environment creation: the final report\<close>

text \<open>
  C2. The install commands are each run on their own, in order, whatever their exit
  codes; but the closing report of \<open>createCondaEnv\<close> tests the \<open>result\<close> of the last
  install command, not of the creation. On a host where the creation succeeds and only
  the last install command fails, the call prints that the environment was created and
  ends by reporting that it failed to create the environment.
\<close>

theorem createCondaEnv_final_report:
  "exec scipy_failing_host [] (Argv (conda_create_argv ''aliIOSCondaCli'')) = exits 0 [] []
   \<and> fst (createCondaEnv scipy_failing_host ''aliIOSCondaCli'' []) = Inr ()
   \<and> Print [Str ''Environment created successfully.'']
        \<in> set (snd (createCondaEnv scipy_failing_host ''aliIOSCondaCli'' []))
   \<and> last (snd (createCondaEnv scipy_failing_host ''aliIOSCondaCli'' []))
       = Print [Str ''Failed to create environment:'', Str ''no scipy'']"
  by code_simp

section \<open>The environment probe when the listing fails\<close>




section \<open>Running commands: the claims\<close>





end
